theory Spec2Isabelle
  imports Main
begin

section \<open>Python dictionaries\<close>

text \<open>
  A Python \<^verbatim>\<open>dict\<close> keeps its keys in insertion order, and assigning to a key that
  is already present keeps the key's position. It is modelled as an association list.
\<close>

type_synonym ('k, 'v) dict = "('k \<times> 'v) list"

text \<open>\<^verbatim>\<open>d[k] = v\<close>\<close>

fun setitem :: "'k \<Rightarrow> 'v \<Rightarrow> ('k, 'v) dict \<Rightarrow> ('k, 'v) dict" where
  "setitem k v [] = [(k, v)]"
| "setitem k v ((k', v') # d) = (if k' = k then (k, v) # d else (k', v') # setitem k v d)"

text \<open>\<^verbatim>\<open>k in d\<close>\<close>

definition contains :: "'k \<Rightarrow> ('k, 'v) dict \<Rightarrow> bool" where
  "contains k d = (k \<in> set (map fst d))"

text \<open>\<^verbatim>\<open>d.update(other)\<close>\<close>

fun dict_update :: "('k, 'v) dict \<Rightarrow> ('k, 'v) dict \<Rightarrow> ('k, 'v) dict" where
  "dict_update d [] = d"
| "dict_update d ((k, v) # other) = dict_update (setitem k v d) other"

section \<open>The error module (automata/error.py)\<close>

text \<open>
  States and symbols are hashable Python values. The exception constructors of the
  module apply the \<^verbatim>\<open>%\<close> operator to them, and that operator treats a tuple on its
  right as the argument list, so tuples are kept apart from the other values.
\<close>

datatype pyval = PStr string | PInt int | PNone | PTuple "pyval list"

text \<open>A formatted message: the template and the values put in place of its \<^verbatim>\<open>%s\<close>.\<close>

datatype message = Message string "pyval list"

datatype error =
    InvalidStartingState message
  | InvalidAcceptingStates message
  | IllegalTransition message pyval

text \<open>
  What a call can raise: the built-in exceptions met in the code, and the exceptions of
  the error module. \<^verbatim>\<open>TypeError\<close> carries a description. \<open>OutsideModel\<close> is no
  exception of Python: it marks the inputs on which this theory does not say what the code
  does (see \<open>setattr\<close> below).
\<close>

datatype exn =
    KeyError
  | TypeError string
  | ValueError
  | AttributeError
  | ModuleError error
  | OutsideModel

text \<open>The number of \<^verbatim>\<open>%s\<close> conversions of a template.\<close>

fun conversions :: "string \<Rightarrow> nat" where
  "conversions [] = 0"
| "conversions [c] = 0"
| "conversions (c # d # cs) =
     (if c = CHR ''%'' \<and> d = CHR ''s'' then Suc (conversions cs) else conversions (d # cs))"

text \<open>
  \<^verbatim>\<open>template % v\<close>: a tuple supplies one argument per element, any other value is
  the single argument; the count must match the conversions of the template.
\<close>

definition format_args :: "pyval \<Rightarrow> pyval list" where
  "format_args v = (case v of PTuple xs \<Rightarrow> xs | _ \<Rightarrow> [v])"

definition percent :: "string \<Rightarrow> pyval \<Rightarrow> exn + message" where
  "percent template v =
     (let args = format_args v; n = conversions template
      in if length args < n then Inl (TypeError ''not enough arguments for format string'')
         else if n < length args
           then Inl (TypeError ''not all arguments converted during string formatting'')
         else Inr (Message template args))"

text \<open>\<^verbatim>\<open>InvalidStartingState(state)\<close>\<close>

definition new_InvalidStartingState :: "pyval \<Rightarrow> exn + error" where
  "new_InvalidStartingState state =
     (case percent ''%s is not a valid starting state.'' state of
        Inl e \<Rightarrow> Inl e
      | Inr m \<Rightarrow> Inr (InvalidStartingState m))"

text \<open>\<^verbatim>\<open>InvalidAcceptingStates(states)\<close>\<close>

definition new_InvalidAcceptingStates :: "pyval \<Rightarrow> exn + error" where
  "new_InvalidAcceptingStates states =
     (case percent ''One or more invalid accepting states: %s'' states of
        Inl e \<Rightarrow> Inl e
      | Inr m \<Rightarrow> Inr (InvalidAcceptingStates m))"

text \<open>
  \<^verbatim>\<open>IllegalTransition(start, symbol)\<close>: the template is applied to \<^verbatim>\<open>start\<close> alone, and
  \<^verbatim>\<open>symbol\<close> is passed on as a second argument of the exception.
\<close>

definition new_IllegalTransition :: "pyval \<Rightarrow> pyval \<Rightarrow> exn + error" where
  "new_IllegalTransition start symbol =
     (case percent ''Illegal transition %s from starting node %s'' start of
        Inl e \<Rightarrow> Inl e
      | Inr m \<Rightarrow> Inr (IllegalTransition m symbol))"

section \<open>The automaton (automata/finite_automaton.py)\<close>

subsection \<open>Data\<close>

text \<open>
  States and symbols are hashable Python objects, and the same object can serve as both;
  \<^verbatim>\<open>current\<close> holds one as well. The objects modelled are strings, integers, \<^verbatim>\<open>None\<close>,
  tuples of such objects, and functions. A function carries its \<^verbatim>\<open>__name__\<close> and, in
  \<open>'f\<close>, its identity; only functions are callable.
\<close>

datatype 'f obj = Str string | IntV int | NoneV | Tuple "'f obj list" | Fn string 'f

text \<open>\<^verbatim>\<open>bool(v)\<close>\<close>

fun truthy :: "'f obj \<Rightarrow> bool" where
  "truthy (Str s) = (s \<noteq> [])"
| "truthy (IntV i) = (i \<noteq> 0)"
| "truthy NoneV = False"
| "truthy (Tuple xs) = (xs \<noteq> [])"
| "truthy (Fn name f) = True"

text \<open>
  What \<^verbatim>\<open>functools.partial\<close> stores: the callable and the positional arguments
  applied in advance. The callable is the method \<^verbatim>\<open>_default\<close> of the module bound to the
  instance, another method bound to the instance, or a plain function.
\<close>

datatype 'f arg = SelfArg | Arg "'f obj"

datatype 'f callable = DefaultMethod | BoundMethod 'f | Function 'f

datatype 'f partial = Partial "'f callable" "'f arg list"

text \<open>The values of an edge's attribute dictionary: the caller's, or a bound handler.\<close>

datatype 'f attr_value = UserValue "'f obj" | Handler "'f partial"

definition TRANSITION :: string where
  "TRANSITION = ''__TRANSITION_FUNCTION''"

text \<open>
  The lines written to standard output: the failure text of \<^verbatim>\<open>__call__\<close>
  (\<^verbatim>\<open>Failure to transition: no available connection!\<close>), the two lines of \<^verbatim>\<open>_default\<close>,
  and whatever a handler supplied by the user prints. The keyword payload of a fire call
  is a dictionary from names to values of \<open>'p\<close>.
\<close>

datatype ('f, 'p) line =
    NoConnection
  | Moving "'f obj" "'f obj"
  | Attributes "(string, 'p) dict"
  | Printed string

text \<open>
  What the class of the instance and its base classes expose under a name, apart from
  what the module itself stores on the instance: a method, or a value that is not
  callable, with its truth value. The graph base class is not part of the repository, so
  the table is a parameter: \<open>members\<close> lists the methods of the subclass, the methods
  inherited from the graph class, and the data attributes that the graph class keeps on
  the instance; \<open>internal\<close> lists the names through which Python and the graph class
  keep and reach the state of the instance (properties, private attributes, the graph
  methods that the module calls). \<open>Datum b\<close> is a value whose truth value is \<open>b\<close> when
  \<^verbatim>\<open>add_transition\<close> looks it up, which is after the edge has been added.
\<close>

datatype 'f member = Method 'f | Datum bool

record 'f pyclass =
  members :: "(string, 'f member) dict"
  internal :: "string list"

text \<open>
  The instance. \<^verbatim>\<open>adj\<close> is the successor structure of the multigraph: node, then target,
  then edge key, then attribute name. A node is a key of \<^verbatim>\<open>adj\<close>. \<^verbatim>\<open>attached\<close> holds the
  functions stored on the instance by \<^verbatim>\<open>setattr\<close>, \<^verbatim>\<open>klass\<close> is its class. Standard
  output is threaded with the instance. The predecessor structure and the node attributes
  of the graph, which the module never reads, are left out.
\<close>

record ('f, 'p) automaton =
  current :: "'f obj"
  adj :: "('f obj, ('f obj, ('f obj, (string, 'f attr_value) dict) dict) dict) dict"
  attached :: "(string, 'f) dict"
  klass :: "'f pyclass"
  stdout :: "('f, 'p) line list"


text \<open>
  A transition descriptor of the constructor's list is a tuple: of two elements, of three,
  or of another length. \<open>OtherLength k\<close> stands for the tuples of the other lengths:
  \<open>k\<close> elements when \<open>k < 2\<close>, and \<open>k + 2\<close> otherwise. The states are the elements that
  unpacking the second component yields, and the third component is a dictionary.
\<close>

datatype 'f descriptor =
    Two "'f obj" "'f obj list"
  | Three "'f obj" "'f obj list" "('f obj, 'f obj) dict"
  | OtherLength nat

fun len :: "'f descriptor \<Rightarrow> nat" where
  "len (Two symbol states) = 2"
| "len (Three symbol states attr_dict) = 3"
| "len (OtherLength k) = (if k < 2 then k else k + 2)"

subsection \<open>The graph operation used by the module\<close>

text \<open>
  \<^verbatim>\<open>self.add_edge(u, v, key=key, **attrs)\<close> first binds its arguments. The call fails
  with \<^verbatim>\<open>TypeError\<close> when \<^verbatim>\<open>attrs\<close> has the key \<^verbatim>\<open>key\<close>, which the call itself gives;
  when a key of \<^verbatim>\<open>attrs\<close> is not a string; or when a key is the name of a positional
  parameter of the method (\<^verbatim>\<open>add_edge(self, u_for_edge, v_for_edge, key=None, **attr)\<close>).
  The checks come in this order.
\<close>

definition positional :: "string list" where
  "positional = [''self'', ''u_for_edge'', ''v_for_edge'']"

fun keyword :: "'f obj \<times> 'f obj \<Rightarrow> (string \<times> 'f attr_value) option" where
  "keyword (Str name, v) = Some (name, UserValue v)"
| "keyword (k, v) = None"

definition as_keywords :: "('f obj, 'f obj) dict \<Rightarrow> exn + (string, 'f attr_value) dict" where
  "as_keywords attrs =
     (if contains (Str ''key'') attrs
        then Inl (TypeError ''got multiple values for keyword argument key'')
      else if list_ex (\<lambda>entry. keyword entry = None) attrs
        then Inl (TypeError ''keywords must be strings'')
      else if list_ex (\<lambda>name. contains (Str name) attrs) positional
        then Inl (TypeError ''got multiple values for a positional argument'')
      else Inr (List.map_filter keyword attrs))"

text \<open>
  The body of \<^verbatim>\<open>add_edge\<close>, from the documentation of the graph class: both nodes are
  added when absent, source first, and \<^verbatim>\<open>None\<close> is refused as a node with
  \<^verbatim>\<open>ValueError\<close>; the key \<^verbatim>\<open>None\<close> stands for the lowest unused integer from the number
  of edges between the two nodes on; an existing edge with that key has its attributes
  updated, otherwise the edge is created with the attributes given. An exception comes
  with the instance as it is when raised.
\<close>

definition add_node :: "'f obj \<Rightarrow> ('f, 'p) automaton \<Rightarrow> ('f, 'p) automaton" where
  "add_node u a = (if contains u (adj a) then a else a\<lparr>adj := adj a @ [(u, [])]\<rparr>)"

definition targets_of ::
  "('f, 'p) automaton \<Rightarrow> 'f obj \<Rightarrow>
     ('f obj, ('f obj, (string, 'f attr_value) dict) dict) dict" where
  "targets_of a u = (case map_of (adj a) u of Some targets \<Rightarrow> targets | None \<Rightarrow> [])"

definition new_edge_key :: "('f obj, 'v) dict \<Rightarrow> 'f obj" where
  "new_edge_key keydict =
     (let n = length keydict
      in case find (\<lambda>k. \<not> contains (IntV (int k)) keydict) [n ..< Suc (2 * n)] of
           Some k \<Rightarrow> IntV (int k)
         | None \<Rightarrow> IntV (int (Suc (2 * n))))"

definition add_edge ::
  "('f, 'p) automaton \<Rightarrow> 'f obj \<Rightarrow> 'f obj \<Rightarrow> 'f obj \<Rightarrow> (string, 'f attr_value) dict \<Rightarrow>
     (exn \<times> ('f, 'p) automaton) + ('f, 'p) automaton" where
  "add_edge a u v key attr =
     (if \<not> contains u (adj a) \<and> u = NoneV then Inl (ValueError, a)
      else
        (let a0 = add_node u a
         in if \<not> contains v (adj a0) \<and> v = NoneV then Inl (ValueError, a0)
            else
              (let a1 = add_node v a0;
                   targets = targets_of a1 u;
                   key = (if key = NoneV
                          then new_edge_key (case map_of targets v of Some kd \<Rightarrow> kd | None \<Rightarrow> [])
                          else key)
               in case map_of targets v of
                    Some keydict \<Rightarrow>
                      (let datadict =
                             dict_update (case map_of keydict key of Some d \<Rightarrow> d | None \<Rightarrow> [])
                               attr
                       in Inr (a1\<lparr>adj :=
                            setitem u (setitem v (setitem key datadict keydict) targets)
                              (adj a1)\<rparr>))
                  | None \<Rightarrow>
                      (let datadict = dict_update [] attr
                       in Inr (a1\<lparr>adj :=
                            setitem u (setitem v [(key, datadict)] targets) (adj a1)\<rparr>)))))"

text \<open>The call with its argument binding.\<close>

definition call_add_edge ::
  "('f, 'p) automaton \<Rightarrow> 'f obj \<Rightarrow> 'f obj \<Rightarrow> 'f obj \<Rightarrow> ('f obj, 'f obj) dict \<Rightarrow>
     (exn \<times> ('f, 'p) automaton) + ('f, 'p) automaton" where
  "call_add_edge a u v key attrs =
     (case as_keywords attrs of
        Inl e \<Rightarrow> Inl (e, a)
      | Inr attr \<Rightarrow> add_edge a u v key attr)"

subsection \<open>Registration\<close>

text \<open>
  \<^verbatim>\<open>setattr(self, symbol_name, symbol)\<close> for a function. The name \<^verbatim>\<open>current\<close> is the
  attribute in which the module keeps the current state, so the function replaces it.
  A function stored under a name of \<open>internal\<close>, or under \<^verbatim>\<open>add_transition\<close>, replaces on
  the instance a part of the graph class or of the module; what their code does from then
  on is not modelled, and the result is \<open>OutsideModel\<close>. Any other name is a new
  attribute of the instance (which hides a method of the class with that name).
\<close>

definition setattr :: "('f, 'p) automaton \<Rightarrow> string \<Rightarrow> 'f \<Rightarrow> exn + ('f, 'p) automaton" where
  "setattr a name f =
     (if name = ''current'' then Inr (a\<lparr>current := Fn name f\<rparr>)
      else if name \<in> set (internal (klass a)) \<or> name = ''add_transition'' then Inl OutsideModel
      else Inr (a\<lparr>attached := setitem name f (attached a)\<rparr>))"

text \<open>
  What an attribute lookup finds: something callable, or a value that is not callable, of
  which only the truth value matters.
\<close>

datatype 'f found = Callable "'f callable" | NonCallable bool

text \<open>
  \<^verbatim>\<open>getattr(self, name, None)\<close> for a string: \<^verbatim>\<open>current\<close> is the current state (or the
  function stored there); a function stored on the instance comes before what the class
  exposes; a method of the class is returned bound to the instance; and \<^verbatim>\<open>_default\<close> is
  the method of the module unless something hides it.
\<close>

definition getattr :: "('f, 'p) automaton \<Rightarrow> string \<Rightarrow> 'f found option" where
  "getattr a name =
     (if name = ''current'' then
        Some (case current a of
                Fn function_name f \<Rightarrow> Callable (Function f)
              | v \<Rightarrow> NonCallable (truthy v))
      else
        (case map_of (attached a) name of
           Some f \<Rightarrow> Some (Callable (Function f))
         | None \<Rightarrow>
             (case map_of (members (klass a)) name of
                Some (Method m) \<Rightarrow> Some (Callable (BoundMethod m))
              | Some (Datum b) \<Rightarrow> Some (NonCallable b)
              | None \<Rightarrow> if name = ''_default'' then Some (Callable DefaultMethod) else None)))"

text \<open>\<^verbatim>\<open>if transition:\<close>\<close>

fun is_true :: "'f found \<Rightarrow> bool" where
  "is_true (Callable c) = True"
| "is_true (NonCallable b) = b"

text \<open>\<^verbatim>\<open>functools.partial(x, *args)\<close> raises \<^verbatim>\<open>TypeError\<close> unless \<^verbatim>\<open>x\<close> is callable.\<close>

fun functools_partial :: "'f found \<Rightarrow> 'f arg list \<Rightarrow> exn + 'f partial" where
  "functools_partial (Callable c) args = Inr (Partial c args)"
| "functools_partial (NonCallable b) args = Inl (TypeError ''the first argument must be callable'')"

text \<open>\<^verbatim>\<open>self[first][next][key][TRANSITION] = handler\<close>\<close>

definition bind_transition ::
  "('f, 'p) automaton \<Rightarrow> 'f obj \<Rightarrow> 'f obj \<Rightarrow> 'f obj \<Rightarrow> 'f partial \<Rightarrow>
     (exn \<times> ('f, 'p) automaton) + ('f, 'p) automaton" where
  "bind_transition a u v key handler =
     (case map_of (adj a) u of
        None \<Rightarrow> Inl (KeyError, a)
      | Some targets \<Rightarrow>
          (case map_of targets v of
             None \<Rightarrow> Inl (KeyError, a)
           | Some keydict \<Rightarrow>
               (case map_of keydict key of
                  None \<Rightarrow> Inl (KeyError, a)
                | Some datadict \<Rightarrow>
                    Inr (a\<lparr>adj :=
                      setitem u
                        (setitem v
                          (setitem key (setitem TRANSITION (Handler handler) datadict) keydict)
                          targets)
                        (adj a)\<rparr>))))"

text \<open>
  The right-hand side is evaluated first, so an exception of \<^verbatim>\<open>functools.partial\<close> leaves
  the edge as \<^verbatim>\<open>add_edge\<close> made it.
\<close>

definition bind_partial ::
  "('f, 'p) automaton \<Rightarrow> 'f obj \<Rightarrow> 'f obj \<Rightarrow> 'f obj \<Rightarrow> 'f found \<Rightarrow> 'f arg list \<Rightarrow>
     (exn \<times> ('f, 'p) automaton) + ('f, 'p) automaton" where
  "bind_partial a u v key x args =
     (case functools_partial x args of
        Inl e \<Rightarrow> Inl (e, a)
      | Inr handler \<Rightarrow> bind_transition a u v key handler)"

text \<open>The branch that binds \<^verbatim>\<open>self._default\<close>.\<close>

definition bind_default ::
  "('f, 'p) automaton \<Rightarrow> 'f obj \<Rightarrow> 'f obj \<Rightarrow> 'f obj \<Rightarrow>
     (exn \<times> ('f, 'p) automaton) + ('f, 'p) automaton" where
  "bind_default a first_state next_state key =
     (case getattr a ''_default'' of
        None \<Rightarrow> Inl (AttributeError, a)
      | Some x \<Rightarrow> bind_partial a first_state next_state key x [Arg first_state, Arg next_state])"

text \<open>
  \<^verbatim>\<open>add_transition(symbol, states, attrs=None)\<close>. Unpacking \<^verbatim>\<open>states\<close> into two names
  raises \<^verbatim>\<open>ValueError\<close> unless it has exactly two elements. \<^verbatim>\<open>getattr\<close> raises
  \<^verbatim>\<open>TypeError\<close> for a symbol that is not a string. An exception comes with the instance as
  it is when raised.
\<close>

definition add_transition ::
  "('f, 'p) automaton \<Rightarrow> 'f obj \<Rightarrow> 'f obj list \<Rightarrow> ('f obj, 'f obj) dict option \<Rightarrow>
     (exn \<times> ('f, 'p) automaton) + ('f, 'p) automaton" where
  "add_transition a symbol states attrs =
     (let attrs = (case attrs of None \<Rightarrow> [] | Some d \<Rightarrow> if d \<noteq> [] then d else [])
      in case states of
           [first_state, next_state] \<Rightarrow>
             (case symbol of
                Fn symbol_name f \<Rightarrow>
                  (case setattr a symbol_name f of
                     Inl e \<Rightarrow> Inl (e, a)
                   | Inr a1 \<Rightarrow>
                       (case call_add_edge a1 first_state next_state (Str symbol_name) attrs of
                          Inl e \<Rightarrow> Inl e
                        | Inr a2 \<Rightarrow>
                            (case getattr a2 symbol_name of
                               None \<Rightarrow> Inl (AttributeError, a2)
                             | Some x \<Rightarrow>
                                 bind_partial a2 first_state next_state (Str symbol_name) x
                                   [SelfArg, Arg first_state, Arg next_state])))
              | _ \<Rightarrow>
                  (case call_add_edge a first_state next_state symbol attrs of
                     Inl e \<Rightarrow> Inl e
                   | Inr a1 \<Rightarrow>
                       (case symbol of
                          Str name \<Rightarrow>
                            (case getattr a1 name of
                               None \<Rightarrow> bind_default a1 first_state next_state symbol
                             | Some transition \<Rightarrow>
                                 if is_true transition
                                 then bind_partial a1 first_state next_state symbol transition
                                        [Arg first_state, Arg next_state]
                                 else bind_default a1 first_state next_state symbol)
                        | _ \<Rightarrow> Inl (TypeError ''attribute name must be string'', a1))))
         | _ \<Rightarrow> Inl (ValueError, a))"

subsection \<open>Construction\<close>

fun load :: "('f, 'p) automaton \<Rightarrow> 'f descriptor list \<Rightarrow> exn + ('f, 'p) automaton" where
  "load a [] = Inr a"
| "load a (transition # rest) =
     (if len transition = 2 then
        (case transition of
           Two symbol states \<Rightarrow>
             (case add_transition a symbol states None of
                Inl (e, a') \<Rightarrow> Inl e
              | Inr a' \<Rightarrow> load a' rest)
         | _ \<Rightarrow> load a rest)
      else if len transition = 3 then
        (case transition of
           Three symbol states attr_dict \<Rightarrow>
             (case add_transition a symbol states (Some attr_dict) of
                Inl (e, a') \<Rightarrow> Inl e
              | Inr a' \<Rightarrow> load a' rest)
         | _ \<Rightarrow> load a rest)
      else load a rest)"

text \<open>
  \<^verbatim>\<open>FiniteAutomaton(new_transitions, initial_state)\<close>, for an instance of the class
  \<open>cls\<close>: the graph starts empty, \<^verbatim>\<open>current\<close> is assigned, and the descriptors are loaded
  in order. An exception leaves no instance.
\<close>

definition construct ::
  "'f pyclass \<Rightarrow> 'f descriptor list \<Rightarrow> 'f obj \<Rightarrow> exn + ('f, 'p) automaton" where
  "construct cls new_transitions initial_state =
     load \<lparr>current = initial_state, adj = [], attached = [], klass = cls, stdout = []\<rparr>
       new_transitions"

subsection \<open>Firing\<close>

text \<open>
  The functions and methods supplied by the user are values of \<open>'f\<close>; \<open>run\<close> gives
  their behaviour. Called with positional arguments and the keyword payload on an
  instance, a handler may assign \<^verbatim>\<open>current\<close> and print, and then it returns or raises:
  the effect \<open>Effect c out r\<close> has the value \<open>c\<close> of \<^verbatim>\<open>current\<close> when the handler stops,
  its lines \<open>out\<close>, and its exception \<open>r\<close>, if any. A handler that adds or removes nodes,
  edges or edge attributes, or that does not return, has the effect \<open>Beyond\<close>: what the
  loop of \<^verbatim>\<open>__call__\<close> does over a graph that changes under it is not modelled, and the
  result of the call is \<open>OutsideModel\<close>.
\<close>

datatype 'f effect = Effect "'f obj" "string list" "exn option" | Beyond

type_synonym ('f, 'p) behaviour =
  "'f \<Rightarrow> 'f arg list \<Rightarrow> (string, 'p) dict \<Rightarrow> ('f, 'p) automaton \<Rightarrow> 'f effect"

text \<open>
  \<^verbatim>\<open>_default(self, current_state, next_state, **attrs)\<close>, called with two positional
  arguments after the instance: a payload key that names one of its parameters is a
  second value for that parameter, and the call fails with \<^verbatim>\<open>TypeError\<close> before the body
  runs.
\<close>

definition parameters :: "string list" where
  "parameters = [''self'', ''current_state'', ''next_state'']"

definition default_transition ::
  "('f, 'p) automaton \<Rightarrow> 'f obj \<Rightarrow> 'f obj \<Rightarrow> (string, 'p) dict \<Rightarrow> ('f, 'p) automaton" where
  "default_transition a current_state next_state attrs =
     a\<lparr>stdout := stdout a @ [Moving current_state next_state, Attributes attrs],
       current := next_state\<rparr>"

definition call_default ::
  "'f arg list \<Rightarrow> (string, 'p) dict \<Rightarrow> ('f, 'p) automaton \<Rightarrow>
     (exn \<times> ('f, 'p) automaton) + ('f, 'p) automaton" where
  "call_default args kwargs a =
     (case args of
        [Arg current_state, Arg next_state] \<Rightarrow>
          if list_ex (\<lambda>name. contains name kwargs) parameters
          then Inl (TypeError ''_default() got multiple values for an argument'', a)
          else Inr (default_transition a current_state next_state kwargs)
      | _ \<Rightarrow> Inl (TypeError ''_default() called with wrong positional arguments'', a))"

definition call_user ::
  "('f, 'p) behaviour \<Rightarrow> 'f \<Rightarrow> 'f arg list \<Rightarrow> (string, 'p) dict \<Rightarrow> ('f, 'p) automaton \<Rightarrow>
     (exn \<times> ('f, 'p) automaton) + ('f, 'p) automaton" where
  "call_user run f args kwargs a =
     (case run f args kwargs a of
        Effect c out r \<Rightarrow>
          (let a' = a\<lparr>current := c, stdout := stdout a @ map Printed out\<rparr>
           in case r of None \<Rightarrow> Inr a' | Some e \<Rightarrow> Inl (e, a'))
      | Beyond \<Rightarrow> Inl (OutsideModel, a))"

text \<open>
  Calling a \<^verbatim>\<open>functools.partial\<close> object with the keyword payload. An exception comes
  with the instance as it is when raised.
\<close>

fun invoke ::
  "('f, 'p) behaviour \<Rightarrow> 'f partial \<Rightarrow> (string, 'p) dict \<Rightarrow> ('f, 'p) automaton \<Rightarrow>
     (exn \<times> ('f, 'p) automaton) + ('f, 'p) automaton" where
  "invoke run (Partial DefaultMethod args) kwargs a = call_default args kwargs a"
| "invoke run (Partial (BoundMethod m) args) kwargs a = call_user run m (SelfArg # args) kwargs a"
| "invoke run (Partial (Function f) args) kwargs a = call_user run f args kwargs a"

text \<open>
  \<^verbatim>\<open>datadict[TRANSITION](**kwargs)\<close>. The value under the handler key is the handler that
  \<^verbatim>\<open>add_transition\<close> bound, or, where that call failed before binding, a value of the
  caller's attributes: a function is called with the payload alone, anything else is not
  callable.
\<close>

definition call_transition ::
  "('f, 'p) behaviour \<Rightarrow> (string, 'f attr_value) dict \<Rightarrow> (string, 'p) dict \<Rightarrow>
     ('f, 'p) automaton \<Rightarrow> (exn \<times> ('f, 'p) automaton) + ('f, 'p) automaton" where
  "call_transition run datadict kwargs a =
     (case map_of datadict TRANSITION of
        None \<Rightarrow> Inl (KeyError, a)
      | Some (Handler handler) \<Rightarrow> invoke run handler kwargs a
      | Some (UserValue (Fn name f)) \<Rightarrow> call_user run f [] kwargs a
      | Some (UserValue v) \<Rightarrow> Inl (TypeError ''object is not callable'', a))"

text \<open>The loop of \<^verbatim>\<open>__call__\<close> over \<^verbatim>\<open>targets.items()\<close>.\<close>

fun call_loop ::
  "('f, 'p) behaviour \<Rightarrow> ('f obj, ('f obj, (string, 'f attr_value) dict) dict) dict \<Rightarrow>
     'f obj \<Rightarrow> (string, 'p) dict \<Rightarrow> ('f, 'p) automaton \<Rightarrow>
     (exn \<times> ('f, 'p) automaton) + ('f, 'p) automaton" where
  "call_loop run [] symbol kwargs a = Inr a"
| "call_loop run ((target_state, transitions) # rest) symbol kwargs a =
     (if contains symbol transitions then
        (case map_of transitions symbol of
           None \<Rightarrow> Inl (KeyError, a)
         | Some datadict \<Rightarrow>
             (case call_transition run datadict kwargs a of
                Inl e \<Rightarrow> Inl e
              | Inr a' \<Rightarrow> call_loop run rest symbol kwargs a'))
      else call_loop run rest symbol kwargs a)"

text \<open>
  \<^verbatim>\<open>__call__(symbol, **kwargs)\<close>, the fire entry point. Looking \<^verbatim>\<open>current\<close> up in the
  adjacency raises \<^verbatim>\<open>KeyError\<close> when it is not a node. \<open>kwargs\<close> is the payload that
  the body receives: a keyword named \<^verbatim>\<open>self\<close> or \<^verbatim>\<open>symbol\<close> is a second value for a
  parameter of \<^verbatim>\<open>__call__\<close> and fails the call before its body runs.
\<close>

definition call ::
  "('f, 'p) behaviour \<Rightarrow> ('f, 'p) automaton \<Rightarrow> 'f obj \<Rightarrow> (string, 'p) dict \<Rightarrow>
     (exn \<times> ('f, 'p) automaton) + ('f, 'p) automaton" where
  "call run a symbol kwargs =
     (case map_of (adj a) (current a) of
        None \<Rightarrow> Inl (KeyError, a)
      | Some targets \<Rightarrow>
          if targets \<noteq> [] then call_loop run targets symbol kwargs a
          else Inr (a\<lparr>stdout := stdout a @ [NoConnection]\<rparr>))"

subsection \<open>Notions used by the properties\<close>

text \<open>A class that exposes nothing beyond the module's own attributes.\<close>

definition plain :: "'f pyclass" where
  "plain = \<lparr>members = [], internal = []\<rparr>"


text \<open>A handler that returns at once: it prints nothing and leaves \<^verbatim>\<open>current\<close> alone.\<close>

definition quiet :: "('f, 'p) behaviour" where
  "quiet f args kwargs a = Effect (current a) [] None"


text \<open>The value is a tuple of exactly two elements.\<close>

fun is_pair :: "pyval \<Rightarrow> bool" where
  "is_pair (PTuple [x, y]) = True"
| "is_pair v = False"

text \<open>The attribute dictionary of the edge from \<open>u\<close> to \<open>v\<close> with the given key.\<close>

definition edge_data ::
  "('f, 'p) automaton \<Rightarrow> 'f obj \<Rightarrow> 'f obj \<Rightarrow> 'f obj \<Rightarrow> (string, 'f attr_value) dict option" where
  "edge_data a u v key =
     (case map_of (adj a) u of
        None \<Rightarrow> None
      | Some targets \<Rightarrow>
          (case map_of targets v of
             None \<Rightarrow> None
           | Some keydict \<Rightarrow> map_of keydict key))"


text \<open>The key under which \<^verbatim>\<open>add_transition\<close> stores the edge of a symbol other than \<^verbatim>\<open>None\<close>.\<close>

definition key_of :: "'f obj \<Rightarrow> 'f obj" where
  "key_of symbol = (case symbol of Fn symbol_name f \<Rightarrow> Str symbol_name | _ \<Rightarrow> symbol)"





text \<open>
  The attribute dictionaries of the edges keyed by \<open>symbol\<close> in an adjacency, one per
  target that has such an edge, in the order of the adjacency.
\<close>

definition keyed ::
  "'f obj \<Rightarrow> ('f obj, ('f obj, (string, 'f attr_value) dict) dict) dict \<Rightarrow>
     (string, 'f attr_value) dict list" where
  "keyed symbol targets =
     List.map_filter (\<lambda>(target_state, transitions). map_of transitions symbol) targets"





text \<open>The instance left by a call, whether it returns or raises.\<close>

definition left_by ::
  "(exn \<times> ('f, 'p) automaton) + ('f, 'p) automaton \<Rightarrow> ('f, 'p) automaton" where
  "left_by r = (case r of Inl (e, a) \<Rightarrow> a | Inr a \<Rightarrow> a)"


text \<open>The states bound to a handler are among \<open>ns\<close>.\<close>

fun arg_inside :: "'f obj list \<Rightarrow> 'f arg \<Rightarrow> bool" where
  "arg_inside ns SelfArg = True"
| "arg_inside ns (Arg s) = (s \<in> set ns)"

fun value_inside :: "'f obj list \<Rightarrow> 'f attr_value \<Rightarrow> bool" where
  "value_inside ns (UserValue v) = True"
| "value_inside ns (Handler (Partial c args)) = list_all (arg_inside ns) args"

text \<open>Every handler stored in the graph is bound to states among \<open>ns\<close>.\<close>

definition inside :: "'f obj list \<Rightarrow> (string, 'f attr_value) dict \<Rightarrow> bool" where
  "inside ns datadict = list_all (\<lambda>(name, x). value_inside ns x) datadict"

definition keys_inside ::
  "'f obj list \<Rightarrow> ('f obj, (string, 'f attr_value) dict) dict \<Rightarrow> bool" where
  "keys_inside ns keydict = list_all (\<lambda>(key, datadict). inside ns datadict) keydict"

definition targets_inside ::
  "'f obj list \<Rightarrow> ('f obj, ('f obj, (string, 'f attr_value) dict) dict) dict \<Rightarrow> bool" where
  "targets_inside ns targets = list_all (\<lambda>(v, keydict). keys_inside ns keydict) targets"







text \<open>The edges that leave a state: target and key.\<close>

definition outgoing :: "('f, 'p) automaton \<Rightarrow> 'f obj \<Rightarrow> ('f obj \<times> 'f obj) list" where
  "outgoing a u =
     concat (map (\<lambda>(v, keydict). map (\<lambda>(key, datadict). (v, key)) keydict) (targets_of a u))"


text \<open>
  An instance with two edges keyed \<^verbatim>\<open>push\<close> from its current state, to different
  targets, both with the default handler.
\<close>

definition two_way :: "(nat, nat) automaton" where
  "two_way =
     \<lparr>current = Str ''unlocked'',
      adj = [(Str ''unlocked'',
               [(Str ''locked'', [(Str ''push'',
                  [(TRANSITION, Handler (Partial DefaultMethod
                     [Arg (Str ''unlocked''), Arg (Str ''locked'')]))])]),
                (Str ''broken'', [(Str ''push'',
                  [(TRANSITION, Handler (Partial DefaultMethod
                     [Arg (Str ''unlocked''), Arg (Str ''broken'')]))])])]),
             (Str ''locked'', []),
             (Str ''broken'', [])],
      attached = [], klass = plain, stdout = []\<rparr>"


text \<open>The instance built from an empty transition list with initial state \<^verbatim>\<open>locked\<close>.\<close>

definition no_edges :: "(nat, nat) automaton" where
  "no_edges = \<lparr>current = Str ''locked'', adj = [], attached = [], klass = plain, stdout = []\<rparr>"


text \<open>The instance after \<^verbatim>\<open>add_edge\<close> has added or updated the edge with a given key.\<close>

definition with_edge ::
  "('f, 'p) automaton \<Rightarrow> 'f obj \<Rightarrow> 'f obj \<Rightarrow> 'f obj \<Rightarrow> (string, 'f attr_value) dict \<Rightarrow>
     ('f, 'p) automaton" where
  "with_edge a u v key attr =
     (let a1 = add_node v (add_node u a);
          targets = targets_of a1 u;
          keydict = (case map_of targets v of Some kd \<Rightarrow> kd | None \<Rightarrow> []);
          datadict = dict_update (case map_of keydict key of Some d \<Rightarrow> d | None \<Rightarrow> []) attr
      in a1\<lparr>adj := setitem u (setitem v (setitem key datadict keydict) targets) (adj a1)\<rparr>)"

text \<open>The instance after the \<^verbatim>\<open>setattr\<close> that \<^verbatim>\<open>add_transition\<close> does for a callable.\<close>

definition stored_on :: "('f, 'p) automaton \<Rightarrow> 'f obj \<Rightarrow> ('f, 'p) automaton" where
  "stored_on a symbol =
     (case symbol of
        Fn symbol_name f \<Rightarrow>
          if symbol_name = ''current'' then a\<lparr>current := symbol\<rparr>
          else a\<lparr>attached := setitem symbol_name f (attached a)\<rparr>
      | _ \<Rightarrow> a)"



section \<open>Properties of the error module\<close>

lemma format_args_pair: "length (format_args v) = 2 \<longleftrightarrow> is_pair v"
  by (induction v rule: is_pair.induct) (simp_all add: format_args_def)

text \<open>
  C8, as stated: for every pair of a start and a symbol, constructing
  \<^verbatim>\<open>IllegalTransition\<close> fails with a formatting error. This is false when the start is
  itself a tuple of two elements: the two placeholders then take its components, and the
  constructor returns an exception whose message does not mention the symbol.
\<close>

theorem C8_illegal_transition_counterexample:
  "new_IllegalTransition (PTuple [PStr ''a'', PStr ''b'']) (PStr ''push'') =
     Inr (IllegalTransition
            (Message ''Illegal transition %s from starting node %s'' [PStr ''a'', PStr ''b''])
            (PStr ''push''))"
  by (simp add: new_IllegalTransition_def percent_def format_args_def)

text \<open>
  C8, amended: constructing \<^verbatim>\<open>IllegalTransition(start, symbol)\<close> fails with a
  \<^verbatim>\<open>TypeError\<close> of the \<^verbatim>\<open>%\<close> operator exactly when \<^verbatim>\<open>start\<close> is not a tuple of two
  elements; when it is one, the message is built from the two components of \<^verbatim>\<open>start\<close>,
  and \<^verbatim>\<open>symbol\<close> never enters the message.
\<close>

theorem C8_illegal_transition:
  "(\<not> is_pair start \<longrightarrow>
      (\<exists>text. new_IllegalTransition start symbol = Inl (TypeError text))) \<and>
   (is_pair start \<longrightarrow>
      new_IllegalTransition start symbol =
        Inr (IllegalTransition
               (Message ''Illegal transition %s from starting node %s'' (format_args start))
               symbol))"
  using format_args_pair [of start]
  by (auto simp: new_IllegalTransition_def percent_def Let_def)

theorem C8_illegal_transition_witness:
  "\<not> is_pair (PStr ''locked'') \<and>
   new_IllegalTransition (PStr ''locked'') (PStr ''push'') =
     Inl (TypeError ''not enough arguments for format string'') \<and>
   is_pair (PTuple [PStr ''q0'', PStr ''q1'']) \<and>
   new_IllegalTransition (PTuple [PStr ''q0'', PStr ''q1'']) (PStr ''push'') =
     Inr (IllegalTransition
            (Message ''Illegal transition %s from starting node %s'' [PStr ''q0'', PStr ''q1''])
            (PStr ''push''))"
  using C8_illegal_transition [of "PStr ''locked''" "PStr ''push''"]
    C8_illegal_transition [of "PTuple [PStr ''q0'', PStr ''q1'']" "PStr ''push''"]
  by (simp add: new_IllegalTransition_def percent_def format_args_def)

section \<open>Properties of construction\<close>

lemma load_append:
  "load a (xs @ ys) = (case load a xs of Inl e \<Rightarrow> Inl e | Inr a' \<Rightarrow> load a' ys)"
proof (induction xs arbitrary: a)
  case Nil
  show ?case by simp
next
  case (Cons t ts)
  show ?case
    by (cases t) (simp_all add: Cons.IH split: sum.splits prod.splits)
qed

text \<open>
  C10: a descriptor of the constructor's list whose length is neither 2 nor 3 is passed
  over. The constructor gives the result it gives on the list without that descriptor: the
  same instance, with no node or edge for it, and no exception because of it.
\<close>

theorem C10_other_lengths_skipped:
  "len t \<noteq> 2 \<Longrightarrow> len t \<noteq> 3 \<Longrightarrow>
     construct cls (before @ t # after) initial_state =
       construct cls (before @ after) initial_state"
  by (simp add: construct_def load_append split: sum.splits)

theorem C10_other_lengths_skipped_witness:
  "len (OtherLength 5 :: nat descriptor) \<noteq> 2 \<and>
   len (OtherLength 5 :: nat descriptor) \<noteq> 3 \<and>
   (construct plain ([Two (Str ''push'') [Str ''unlocked'', Str ''locked'']] @ OtherLength 5 # [])
      (Str ''unlocked'') :: exn + (nat, nat) automaton) =
     construct plain ([Two (Str ''push'') [Str ''unlocked'', Str ''locked'']] @ [])
       (Str ''unlocked'')"
  using C10_other_lengths_skipped
    [of "OtherLength 5 :: nat descriptor" "plain"
        "[Two (Str ''push'') [Str ''unlocked'', Str ''locked'']]" "[]" "Str ''unlocked''"]
  by simp

section \<open>Properties of dictionaries and of the graph operation\<close>





lemma add_node_fields [simp]:
  "current (add_node u a) = current a" "attached (add_node u a) = attached a"
  "klass (add_node u a) = klass a" "stdout (add_node u a) = stdout a"
  by (simp_all add: add_node_def)



lemma with_edge_fields [simp]:
  "current (with_edge a u v key attr) = current a"
  "attached (with_edge a u v key attr) = attached a"
  "klass (with_edge a u v key attr) = klass a"
  "stdout (with_edge a u v key attr) = stdout a"
  by (simp_all add: with_edge_def Let_def)










section \<open>Properties of registration\<close>


lemma getattr_cong:
  "current b = current a \<Longrightarrow> attached b = attached a \<Longrightarrow> klass b = klass a \<Longrightarrow>
     getattr b name = getattr a name"
  by (simp add: getattr_def cong: option.case_cong)


lemma getattr_with_edge [simp]: "getattr (with_edge a u v key attr) name = getattr a name"
  by (rule getattr_cong) simp_all





lemma key_of_simps [simp]:
  "key_of (Str name) = Str name" "key_of (Fn symbol_name f) = Str symbol_name"
  "key_of (IntV i) = IntV i" "key_of NoneV = NoneV" "key_of (Tuple xs) = Tuple xs"
  by (simp_all add: key_of_def)





section \<open>Properties of firing\<close>

lemma keyed_Nil [simp]: "keyed symbol [] = []"
  by (simp add: keyed_def map_filter_simps)












text \<open>
  C5, as stated: firing when \<^verbatim>\<open>current\<close> has no outgoing edge prints the failure text.
  This is false for a state that is not a node of the graph, such as the initial state of
  an instance built from an empty transition list: it has no outgoing edge, and the
  adjacency lookup raises \<^verbatim>\<open>KeyError\<close> before anything is printed.
\<close>

theorem C5_no_connection_counterexample:
  "construct plain [] (Str ''locked'') = Inr no_edges \<and>
   outgoing no_edges (current no_edges) = [] \<and>
   call quiet no_edges (Str ''push'') [] = Inl (KeyError, no_edges)"
  by (simp add: construct_def no_edges_def outgoing_def targets_of_def call_def)

text \<open>
  C5, amended: when \<^verbatim>\<open>current\<close> is a node of the graph and its adjacency is empty, firing
  any symbol with any payload returns, and leaves the instance as it was but for the
  failure text added to standard output: no handler has run, whatever the handlers do, and
  \<^verbatim>\<open>current\<close> is unchanged.
\<close>

theorem C5_no_connection:
  "map_of (adj a) (current a) = Some [] \<Longrightarrow>
     call run a symbol kwargs = Inr (a\<lparr>stdout := stdout a @ [NoConnection]\<rparr>) \<and>
     current (left_by (call run a symbol kwargs)) = current a"
  by (simp add: call_def left_by_def)

theorem C5_no_connection_witness:
  "map_of (adj (two_way\<lparr>current := Str ''locked''\<rparr>))
     (current (two_way\<lparr>current := Str ''locked''\<rparr>)) = Some [] \<and>
   call quiet (two_way\<lparr>current := Str ''locked''\<rparr>) (Str ''push'') [] =
     Inr (two_way\<lparr>current := Str ''locked'', stdout := [NoConnection]\<rparr>)"
proof -
  have adj: "map_of (adj (two_way\<lparr>current := Str ''locked''\<rparr>))
      (current (two_way\<lparr>current := Str ''locked''\<rparr>)) = Some []"
    by (simp add: two_way_def)
  show ?thesis
    using C5_no_connection [OF adj, of quiet "Str ''push''" "[]"] adj
    by (simp add: two_way_def)
qed

text \<open>
  C6: when \<^verbatim>\<open>current\<close> has outgoing edges and none of them is keyed by the fired symbol,
  the fire call returns the instance as it was: no handler has run, nothing is raised,
  nothing is printed, and \<^verbatim>\<open>current\<close> is unchanged.
\<close>

theorem C6_unmatched_symbol_is_silent:
  "map_of (adj a) (current a) = Some targets \<Longrightarrow> targets \<noteq> [] \<Longrightarrow>
   \<forall>(target_state, transitions) \<in> set targets. \<not> contains symbol transitions \<Longrightarrow>
     call run a symbol kwargs = Inr a"
proof -
  assume adj: "map_of (adj a) (current a) = Some targets" and ne: "targets \<noteq> []"
    and none: "\<forall>(target_state, transitions) \<in> set targets. \<not> contains symbol transitions"
  have "call_loop run ts symbol kwargs a = Inr a"
    if "\<forall>(target_state, transitions) \<in> set ts. \<not> contains symbol transitions" for ts
    using that by (induction ts) auto
  with adj ne none show ?thesis
    by (simp add: call_def)
qed

theorem C6_unmatched_symbol_is_silent_witness:
  "map_of (adj two_way) (current two_way) =
     Some [(Str ''locked'', [(Str ''push'',
              [(TRANSITION, Handler (Partial DefaultMethod
                 [Arg (Str ''unlocked''), Arg (Str ''locked'')]))])]),
           (Str ''broken'', [(Str ''push'',
              [(TRANSITION, Handler (Partial DefaultMethod
                 [Arg (Str ''unlocked''), Arg (Str ''broken'')]))])])] \<and>
   \<not> contains (Str ''enter_coin'' :: nat obj)
      [(Str ''push'', [(TRANSITION, Handler (Partial DefaultMethod
                     [Arg (Str ''unlocked''), Arg (Str ''locked'')]) :: nat attr_value)])] \<and>
   \<not> contains (Str ''enter_coin'' :: nat obj)
      [(Str ''push'', [(TRANSITION, Handler (Partial DefaultMethod
                     [Arg (Str ''unlocked''), Arg (Str ''broken'')]) :: nat attr_value)])] \<and>
   call quiet two_way (Str ''enter_coin'') [] = Inr two_way"
proof -
  have adj: "map_of (adj two_way) (current two_way) =
     Some [(Str ''locked'', [(Str ''push'',
              [(TRANSITION, Handler (Partial DefaultMethod
                 [Arg (Str ''unlocked''), Arg (Str ''locked'')]))])]),
           (Str ''broken'', [(Str ''push'',
              [(TRANSITION, Handler (Partial DefaultMethod
                 [Arg (Str ''unlocked''), Arg (Str ''broken'')]))])])]"
    by (simp add: two_way_def)
  show ?thesis
    using C6_unmatched_symbol_is_silent [OF adj, of "Str ''enter_coin''" quiet "[]"] adj
    by (simp add: contains_def)
qed




section \<open>Properties of the resolution order\<close>

lemma stored_on_fields [simp]:
  "adj (stored_on a symbol) = adj a" "klass (stored_on a symbol) = klass a"
  "stdout (stored_on a symbol) = stdout a"
  by (simp_all add: stored_on_def split: obj.splits)

lemma edge_data_stored_on [simp]: "edge_data (stored_on a symbol) u v key = edge_data a u v key"
  by (simp add: edge_data_def)












section \<open>Properties of the handler key\<close>




section \<open>Construction never validates the initial state\<close>











section \<open>The handlers stored in the graph are bound to nodes\<close>









lemma inside_Nil [simp]: "inside ns []"
  by (simp add: inside_def)

lemma keys_inside_Nil [simp]: "keys_inside ns []"
  by (simp add: keys_inside_def)

lemma targets_inside_Nil [simp]: "targets_inside ns []"
  by (simp add: targets_inside_def)














section \<open>Firing keeps to the nodes\<close>















end
